theory Spec2Isabelle
  imports Main "HOL-Library.Sublist"
begin

section \<open>Python string primitives\<close>

text \<open>
  Python \<open>str\<close> values are modelled as \<open>string\<close> (a list of 8-bit characters), so the
  model covers ASCII text: \<open>lower\<close> folds the letters A-Z, \<open>strip\<close> removes the ASCII
  characters for which \<open>str.isspace\<close> holds, and \<open>\w\<close> is a letter, a digit or the underscore.
\<close>

definition upper_letters :: string where
  "upper_letters = ''ABCDEFGHIJKLMNOPQRSTUVWXYZ''"

definition lower_letters :: string where
  "lower_letters = ''abcdefghijklmnopqrstuvwxyz''"

definition digit_chars :: string where
  "digit_chars = ''0123456789''"

definition lower_char :: "char \<Rightarrow> char" where
  "lower_char c = (case map_of (zip upper_letters lower_letters) c of Some d \<Rightarrow> d | None \<Rightarrow> c)"

definition lower :: "string \<Rightarrow> string" where
  "lower s = map lower_char s"

definition space_chars :: string where
  "space_chars = [CHR 0x09, CHR 0x0A, CHR 0x0B, CHR 0x0C, CHR 0x0D,
                  CHR 0x1C, CHR 0x1D, CHR 0x1E, CHR 0x1F, CHR 0x20]"

definition is_space :: "char \<Rightarrow> bool" where
  "is_space c = (c \<in> set space_chars)"

definition strip :: "string \<Rightarrow> string" where
  "strip s = rev (dropWhile is_space (rev (dropWhile is_space s)))"

fun starts_with :: "string \<Rightarrow> string \<Rightarrow> bool" where
  "starts_with s [] = True"
| "starts_with [] (p # ps) = False"
| "starts_with (c # cs) (p # ps) = (c = p \<and> starts_with cs ps)"

text \<open>\<open>contains s sub\<close> is Python's \<open>sub in s\<close>.\<close>

fun contains :: "string \<Rightarrow> string \<Rightarrow> bool" where
  "contains [] sub = (sub = [])"
| "contains (c # cs) sub = (starts_with (c # cs) sub \<or> contains cs sub)"

section \<open>safety\_monitor.py\<close>

datatype CrisisLevel = NONE | WARNING | CRITICAL

text \<open>The dataclass \<open>CrisisResponse\<close>; the timestamp is the clock reading at the call.\<close>

record CrisisResponse =
  level :: CrisisLevel
  triggered_words :: "string list"
  message :: string
  timestamp :: nat
  requires_override :: bool

subsection \<open>Regular expressions of the \<open>re\<close> module\<close>

text \<open>
  The fragment of \<open>re\<close> syntax that the patterns of the monitor use: literals (matched
  case-insensitively, as under \<open>re.IGNORECASE\<close>), alternation, concatenation, the
  optional \<open>?\<close>, \<open>.*\<close> (any characters but the newline) and the word boundary \<open>\b\<close>.
  \<open>ends r s i\<close> lists the positions where a match of \<open>r\<close> that starts at position \<open>i\<close>
  of \<open>s\<close> can end; \<open>re_search\<close> succeeds when a match starts somewhere, which is when the
  backtracking search of \<open>re.search\<close> finds one.
\<close>

datatype regex = Lit string | Alt regex regex | Seq regex regex | Opt regex | AnyStar | WordB

definition is_word :: "char \<Rightarrow> bool" where
  "is_word c = (c \<in> set (lower_letters @ upper_letters @ digit_chars @ ''_''))"

definition word_before :: "string \<Rightarrow> nat \<Rightarrow> bool" where
  "word_before s i = (0 < i \<and> i \<le> length s \<and> is_word (s ! (i - 1)))"

definition word_after :: "string \<Rightarrow> nat \<Rightarrow> bool" where
  "word_after s i = (i < length s \<and> is_word (s ! i))"

definition word_boundary :: "string \<Rightarrow> nat \<Rightarrow> bool" where
  "word_boundary s i = (word_before s i \<noteq> word_after s i)"

fun ends :: "regex \<Rightarrow> string \<Rightarrow> nat \<Rightarrow> nat list" where
  "ends (Lit w) s i = (if starts_with (lower (drop i s)) (lower w) then [i + length w] else [])"
| "ends (Alt a b) s i = ends a s i @ ends b s i"
| "ends (Seq a b) s i = concat (map (ends b s) (ends a s i))"
| "ends (Opt a) s i = ends a s i @ [i]"
| "ends AnyStar s i = map (\<lambda>k. i + k) (rev [0..<Suc (length (takeWhile (\<lambda>c. c \<noteq> CHR 0x0A) (drop i s)))])"
| "ends WordB s i = (if word_boundary s i then [i] else [])"

definition re_search :: "regex \<Rightarrow> string \<Rightarrow> bool" where
  "re_search r s = list_ex (\<lambda>i. ends r s i \<noteq> []) [0..<Suc (length s)]"

fun alts :: "string list \<Rightarrow> regex" where
  "alts [] = Lit []"
| "alts [w] = Lit w"
| "alts (w # ws) = Alt (Lit w) (alts ws)"

fun seqs :: "regex list \<Rightarrow> regex" where
  "seqs [] = Lit []"
| "seqs [r] = r"
| "seqs (r # rs) = Seq r (seqs rs)"

subsection \<open>SafetyMonitor\<close>

record SafetyMonitor =
  critical_triggers :: "string list"
  warning_indicators :: "string list"
  phq9_q9_positive_patterns :: "regex list"
  phq9_q9_negative_patterns :: "regex list"

definition default_critical_triggers :: "string list" where
  "default_critical_triggers =
    [''suicide'', ''suicidal'', ''kill myself'', ''end my life'',
     ''self-harm'', ''hurt myself'', ''cut myself'', ''harm myself'',
     ''want to die'', ''better off dead'', ''no point living'',
     ''hurt others'', ''kill someone'', ''harm others'', ''end it all'',
     ''take my own life'', ''not worth living'', ''kill them'']"

definition default_warning_indicators :: "string list" where
  "default_warning_indicators =
    [''hopeless'', ''worthless'', ''trapped'', ''burden'',
     ''desperate'', ''overwhelmed'', ''can't cope'', ''give up'',
     ''no way out'', ''pointless'', ''useless'', ''hate myself'']"

definition positive_patterns :: "regex list" where
  "positive_patterns =
    [seqs [WordB, alts [''yes'', ''sometimes'', ''often'', ''nearly every day'', ''several days''], WordB],
     seqs [WordB, alts [''more than half'', ''have thought'', ''been thinking''], WordB],
     seqs [WordB, alts [''crossed my mind'', ''considered'', ''considering'', ''thinking about''], WordB],
     seqs [WordB,
           Alt (seqs [Lit ''thought'', Opt (Lit ''s''), Lit '' of'']) (alts [''idea of'', ''wanting to'']),
           WordB, AnyStar, WordB, alts [''die'', ''death'', ''harm''], WordB]]"

definition negative_patterns :: "regex list" where
  "negative_patterns =
    [seqs [WordB, alts [''no'', ''never'', ''not at all'', ''haven't'', ''don't''], WordB],
     seqs [WordB, alts [''absolutely not'', ''definitely not'', ''of course not''], WordB]]"

text \<open>\<open>SafetyMonitor.__init__\<close>: a non-empty list of custom trigger words extends the defaults.\<close>

definition init_SafetyMonitor :: "string list option \<Rightarrow> SafetyMonitor" where
  "init_SafetyMonitor config_trigger_words =
    \<lparr> critical_triggers =
        (case config_trigger_words of
           None \<Rightarrow> default_critical_triggers
         | Some ws \<Rightarrow> default_critical_triggers @ ws),
      warning_indicators = default_warning_indicators,
      phq9_q9_positive_patterns = positive_patterns,
      phq9_q9_negative_patterns = negative_patterns \<rparr>"



definition nl :: string where
  "nl = [CHR 0x0A]"

text \<open>The bullet character of the messages, as its UTF-8 bytes.\<close>

definition bullet :: string where
  "bullet = [CHR 0xE2, CHR 0x80, CHR 0xA2]"

definition get_crisis_message :: string where
  "get_crisis_message =
    ''I'm very concerned about what you've shared with me. Your safety is the most important thing right now.''
    @ nl @ nl @ ''Please reach out for immediate support:''
    @ nl @ bullet @ '' Crisis Helpline: 988 (available 24/7)''
    @ nl @ bullet @ '' Emergency Services: 911''
    @ nl @ bullet @ '' Crisis Text Line: Text HOME to 741741''
    @ nl @ nl @ ''You don't have to go through this alone. There are people who want to help you, and things can get better. Please reach out to one of these resources right away.''"

definition get_warning_message :: string where
  "get_warning_message =
    ''I hear that you're going through a difficult time. While I can help with this screening, please remember that professional support is available if you need someone to talk to.''
    @ nl @ nl @ ''If you're feeling overwhelmed, consider reaching out to:''
    @ nl @ bullet @ '' Crisis Helpline: 988''
    @ nl @ bullet @ '' Your healthcare provider''
    @ nl @ bullet @ '' A trusted friend or family member''
    @ nl @ nl @ ''Would you like to continue with the screening, or would you prefer information about mental health resources?''"

definition normalize :: "string \<Rightarrow> string" where
  "normalize text = strip (lower text)"

definition no_crisis :: "nat \<Rightarrow> CrisisResponse" where
  "no_crisis now =
    \<lparr> level = NONE, triggered_words = [], message = [], timestamp = now,
      requires_override = False \<rparr>"

text \<open>
  \<open>check_for_crisis\<close>: the text is \<open>None\<close> when absent, \<open>now\<close> is what
  \<open>datetime.now()\<close> reads at the call. The monitor is only read.
\<close>

definition check_for_crisis :: "SafetyMonitor \<Rightarrow> nat \<Rightarrow> string option \<Rightarrow> CrisisResponse" where
  "check_for_crisis m now text =
    (case text of
       None \<Rightarrow> no_crisis now
     | Some t \<Rightarrow>
        if t = [] then no_crisis now
        else
          let normalized_text = normalize t;
              triggered = filter (\<lambda>trigger. contains normalized_text (lower trigger)) (critical_triggers m)
          in if triggered \<noteq> [] then
               \<lparr> level = CRITICAL, triggered_words = triggered, message = get_crisis_message,
                 timestamp = now, requires_override = True \<rparr>
             else
               let warning_words =
                     filter (\<lambda>warning. contains normalized_text (lower warning)) (warning_indicators m)
               in if warning_words \<noteq> [] then
                    \<lparr> level = WARNING, triggered_words = warning_words, message = get_warning_message,
                      timestamp = now, requires_override = False \<rparr>
                  else no_crisis now)"

text \<open>
  \<open>check_phq9_question9\<close>: a negative pattern that matches a normalized response of fewer
  than 20 characters returns False at once; otherwise any positive pattern decides.
\<close>

definition check_phq9_question9 :: "SafetyMonitor \<Rightarrow> string option \<Rightarrow> bool" where
  "check_phq9_question9 m response =
    (case response of
       None \<Rightarrow> False
     | Some r \<Rightarrow>
        if r = [] then False
        else
          let normalized_response = normalize r
          in if list_ex (\<lambda>pattern. re_search pattern normalized_response \<and> length normalized_response < 20)
                  (phq9_q9_negative_patterns m)
             then False
             else list_ex (\<lambda>pattern. re_search pattern normalized_response) (phq9_q9_positive_patterns m))"


section \<open>gemini\_client.py\<close>

datatype ScreeningTool = PHQ9 | GAD7 | GHQ12

datatype ConversationContext =
  CTX_GREETING | CTX_BACKGROUND_CHECK | CTX_TRIAGE | CTX_PHQ9_SCREENING | CTX_GAD7_SCREENING
  | CTX_GHQ12_SCREENING | CTX_RESULTS_EXPLANATION | CTX_CRISIS_RESPONSE

text \<open>Exceptions as values; each carries the text that \<open>str(e)\<close> gives.\<close>

datatype exn =
  AttributeError string | ValueError string | IndexError string | KeyError string
  | CollaboratorError string

fun str_exn :: "exn \<Rightarrow> string" where
  "str_exn (AttributeError s) = s"
| "str_exn (ValueError s) = s"
| "str_exn (IndexError s) = s"
| "str_exn (KeyError s) = s"
| "str_exn (CollaboratorError s) = s"

text \<open>
  The remote model behind \<open>self.model.generate_content\<close> is a parameter of the embedding.
  It sees a prompt, which carries the arguments that the source formats into the prompt text,
  and either raises or delivers the \<open>text\<close> of its response (possibly empty).
\<close>

datatype prompt =
  Wording_prompt string ConversationContext "string option option"
  | Scoring_prompt string string ScreeningTool

datatype reply = Fails string | Text string

type_synonym remote_model = "prompt \<Rightarrow> reply"

definition get_fallback_response :: "ConversationContext \<Rightarrow> string" where
  "get_fallback_response context =
    (case context of
       CTX_GREETING \<Rightarrow> ''Hello! I'm here to help you with a mental health screening. This is a safe, confidential space. What would you like me to call you?''
     | CTX_BACKGROUND_CHECK \<Rightarrow> ''Thank you for sharing. Have you ever been diagnosed with a mental health condition by a healthcare professional? This helps me provide the most relevant screening.''
     | CTX_TRIAGE \<Rightarrow> ''I'd like to understand what's been concerning you most lately. Would you say it's more about feelings of sadness, anxiety, or general stress?''
     | CTX_PHQ9_SCREENING \<Rightarrow> ''Thank you for sharing. Let me ask about the next area - how has this been affecting you over the past two weeks?''
     | CTX_GAD7_SCREENING \<Rightarrow> ''I appreciate you being open with me. Let's continue with the next question about your recent experiences.''
     | CTX_GHQ12_SCREENING \<Rightarrow> ''Thank you for your honesty. Let me ask about another aspect of how you've been feeling recently.''
     | CTX_RESULTS_EXPLANATION \<Rightarrow> ''Based on your responses, this screening provides some insights into how you've been feeling. Remember, this isn't a diagnosis, but it can help guide next steps.''
     | CTX_CRISIS_RESPONSE \<Rightarrow> ''I'm here to help you through this screening. Please let me know how you're feeling.'')"

text \<open>
  \<open>generate_response\<close>: the stripped text of the model, the fallback wording when the text
  is empty or the call raises.
\<close>

definition generate_response ::
  "remote_model \<Rightarrow> string \<Rightarrow> ConversationContext \<Rightarrow> string option option \<Rightarrow> string" where
  "generate_response model user_message context session_data =
    (case model (Wording_prompt user_message context session_data) of
       Text t \<Rightarrow> if t \<noteq> [] then strip t else get_fallback_response context
     | Fails e \<Rightarrow> get_fallback_response context)"

definition fallback_scoring :: "string \<Rightarrow> int \<times> string" where
  "fallback_scoring user_response =
    (let response_lower = lower user_response in
     if list_ex (contains response_lower)
          [''always'', ''constantly'', ''every day'', ''all the time'', ''never stops'']
     then (3, ''Fallback scoring based on high frequency indicators'')
     else if list_ex (contains response_lower) [''often'', ''frequently'', ''most days'', ''usually'']
     then (2, ''Fallback scoring based on medium-high frequency indicators'')
     else if list_ex (contains response_lower)
          [''sometimes'', ''occasionally'', ''few times'', ''now and then'']
     then (1, ''Fallback scoring based on low frequency indicators'')
     else if list_ex (contains response_lower) [''never'', ''not at all'', ''rarely'', ''hardly ever'']
     then (0, ''Fallback scoring based on minimal frequency indicators'')
     else (1, ''Fallback scoring - conservative default''))"

text \<open>\<open>split_on sep s\<close> is \<open>s.split(sep)\<close> for a separator of one character.\<close>

fun split_on :: "char \<Rightarrow> string \<Rightarrow> string list" where
  "split_on sep [] = [[]]"
| "split_on sep (c # cs) =
    (if c = sep then [] # split_on sep cs
     else (case split_on sep cs of
             [] \<Rightarrow> [[c]]
           | w # ws \<Rightarrow> (c # w) # ws))"

text \<open>\<open>s.split(sep, 1)[1]\<close>: what follows the first separator, \<open>IndexError\<close> without one.\<close>

fun after_first :: "char \<Rightarrow> string \<Rightarrow> exn + string" where
  "after_first sep [] = Inl (IndexError ''list index out of range'')"
| "after_first sep (c # cs) = (if c = sep then Inr cs else after_first sep cs)"

text \<open>List indexing \<open>xs[i]\<close> with its \<open>IndexError\<close>.\<close>

fun index_list :: "'a list \<Rightarrow> nat \<Rightarrow> exn + 'a" where
  "index_list [] i = Inl (IndexError ''list index out of range'')"
| "index_list (x # xs) 0 = Inr x"
| "index_list (x # xs) (Suc i) = index_list xs i"

definition digit_value :: "char \<Rightarrow> int" where
  "digit_value c = (case map_of (zip digit_chars [0, 1, 2, 3, 4, 5, 6, 7, 8, 9]) c of
                      Some d \<Rightarrow> d | None \<Rightarrow> 0)"

definition is_digit :: "char \<Rightarrow> bool" where
  "is_digit c = (c \<in> set digit_chars)"

text \<open>
  The digits of a decimal literal as \<open>int()\<close> accepts them: digits, with single underscores
  between digits.
\<close>

fun digits_ok :: "string \<Rightarrow> bool" where
  "digits_ok [] = False"
| "digits_ok [c] = is_digit c"
| "digits_ok (c # d # cs) =
    (is_digit c \<and> (if d = CHR ''_'' then digits_ok cs else digits_ok (d # cs)))"

definition digits_value :: "string \<Rightarrow> int" where
  "digits_value ds = foldl (\<lambda>a c. 10 * a + digit_value c) 0 (filter is_digit ds)"

text \<open>\<open>int(s)\<close> on a string: surrounding whitespace, an optional sign, decimal digits.\<close>

definition py_int :: "string \<Rightarrow> exn + int" where
  "py_int s =
    (let t = strip s;
         negative = (t \<noteq> [] \<and> hd t = CHR ''-'');
         body = (if t \<noteq> [] \<and> (hd t = CHR ''-'' \<or> hd t = CHR ''+'') then tl t else t)
     in if digits_ok body
        then Inr (if negative then - digits_value body else digits_value body)
        else Inl (ValueError (''invalid literal for int() with base 10: '' @ [CHR 0x27] @ s @ [CHR 0x27])))"

text \<open>
  The \<open>try\<close> block of \<open>map_response_to_score\<close>: \<open>Inl\<close> is an exception raised inside it,
  \<open>Inr None\<close> the fall-through to the fallback scoring at its end.
\<close>

definition map_response_to_score_try ::
  "remote_model \<Rightarrow> string \<Rightarrow> string \<Rightarrow> ScreeningTool \<Rightarrow> exn + (int \<times> string) option" where
  "map_response_to_score_try model user_response question_context screening_tool =
    (case model (Scoring_prompt user_response question_context screening_tool) of
       Fails e \<Rightarrow> Inl (CollaboratorError e)
     | Text txt \<Rightarrow>
        if txt = [] then Inr None
        else
          let lines = split_on (CHR 0x0A) (strip txt);
              score_line = find (\<lambda>line. starts_with line ''SCORE:'') lines;
              explanation_line = find (\<lambda>line. starts_with line ''EXPLANATION:'') lines
          in (case (score_line, explanation_line) of
                (Some sl, Some el) \<Rightarrow>
                  (case index_list (split_on (CHR '':'') sl) 1 of
                     Inl e \<Rightarrow> Inl e
                   | Inr field \<Rightarrow>
                      (case py_int (strip field) of
                         Inl e \<Rightarrow> Inl e
                       | Inr score \<Rightarrow>
                          (case after_first (CHR '':'') el of
                             Inl e \<Rightarrow> Inl e
                           | Inr rest \<Rightarrow>
                              if 0 \<le> score \<and> score \<le> 3 then Inr (Some (score, strip rest))
                              else Inr None)))
              | _ \<Rightarrow> Inr None))"

text \<open>
  \<open>map_response_to_score\<close>: the \<open>except\<close> clause and the end of the \<open>try\<close> block both
  return the fallback scoring. The result is \<open>Inr\<close> when the call returns, \<open>Inl\<close> when an
  exception leaves it.
\<close>

definition map_response_to_score ::
  "remote_model \<Rightarrow> string \<Rightarrow> string \<Rightarrow> ScreeningTool \<Rightarrow> exn + (int \<times> string)" where
  "map_response_to_score model user_response question_context screening_tool =
    (case map_response_to_score_try model user_response question_context screening_tool of
       Inr (Some result) \<Rightarrow> Inr result
     | Inr None \<Rightarrow> Inr (fallback_scoring user_response)
     | Inl e \<Rightarrow> Inr (fallback_scoring user_response))"

section \<open>The session store\<close>

datatype ConversationPhase = GREETING | TRIAGE | SCREENING | RESULTS | CRISIS_RESPONSE

record ScreeningResponse =
  question_id :: string
  user_text :: string
  mapped_score :: int

record SessionData =
  user_name :: "string option"
  current_phase :: ConversationPhase
  selected_tool :: "ScreeningTool option"
  responses :: "ScreeningResponse list"
  conversation_history :: "(string \<times> string \<times> ConversationPhase) list"
  crisis_detected :: bool
  completed :: bool

type_synonym SessionManager = "string \<Rightarrow> SessionData option"

text \<open>
  Modelled from the spec: the module \<open>session_manager\<close> (\<open>SessionManager\<close>,
  \<open>SessionData\<close>, the enumerations \<open>ConversationPhase\<close> and \<open>ScreeningTool\<close>) is not
  among the sources. The store maps a session identifier to the session it holds; a live
  session is one that the store holds (time stamps and expiry are left out). \<open>get\<close>
  returns the stored session, \<open>update\<close> applies the field changes of its keyword arguments,
  the two append operations add a conversation turn or a scored answer at the end, and each
  of them leaves the store as it is when the session is absent. The total score is the sum
  of the recorded scores.
\<close>

datatype field_change =
  Set_user_name string
  | Set_current_phase ConversationPhase
  | Set_selected_tool ScreeningTool
  | Set_crisis_detected bool
  | Set_completed bool

fun apply_change :: "field_change \<Rightarrow> SessionData \<Rightarrow> SessionData" where
  "apply_change (Set_user_name n) s = s \<lparr> user_name := Some n \<rparr>"
| "apply_change (Set_current_phase p) s = s \<lparr> current_phase := p \<rparr>"
| "apply_change (Set_selected_tool t) s = s \<lparr> selected_tool := Some t \<rparr>"
| "apply_change (Set_crisis_detected b) s = s \<lparr> crisis_detected := b \<rparr>"
| "apply_change (Set_completed b) s = s \<lparr> completed := b \<rparr>"

definition get_session :: "SessionManager \<Rightarrow> string \<Rightarrow> SessionData option" where
  "get_session store session_id = store session_id"

definition update_session :: "SessionManager \<Rightarrow> string \<Rightarrow> field_change list \<Rightarrow> SessionManager" where
  "update_session store session_id changes =
    (case store session_id of
       None \<Rightarrow> store
     | Some s \<Rightarrow> store (session_id := Some (fold apply_change changes s)))"

definition add_conversation ::
  "SessionManager \<Rightarrow> string \<Rightarrow> string \<Rightarrow> string \<Rightarrow> ConversationPhase \<Rightarrow> SessionManager" where
  "add_conversation store session_id user_message ai_message phase =
    (case store session_id of
       None \<Rightarrow> store
     | Some s \<Rightarrow>
        store (session_id :=
          Some (s \<lparr> conversation_history := conversation_history s @ [(user_message, ai_message, phase)] \<rparr>)))"

definition add_response :: "SessionManager \<Rightarrow> string \<Rightarrow> string \<Rightarrow> string \<Rightarrow> int \<Rightarrow> SessionManager" where
  "add_response store session_id qid text score =
    (case store session_id of
       None \<Rightarrow> store
     | Some s \<Rightarrow>
        store (session_id :=
          Some (s \<lparr> responses := responses s @
                  [\<lparr> question_id = qid, user_text = text, mapped_score = score \<rparr>] \<rparr>)))"

definition get_total_score :: "SessionData \<Rightarrow> int" where
  "get_total_score s = sum_list (map mapped_score (responses s))"

text \<open>
  The handlers hold \<open>session\<close>, the object that \<open>get_session\<close> returned, while they change
  the store through its identifier: a read of \<open>session\<close> after such a change sees the
  session as the store holds it then.
\<close>

definition current :: "SessionManager \<Rightarrow> string \<Rightarrow> SessionData \<Rightarrow> SessionData" where
  "current store session_id session = (case store session_id of Some s \<Rightarrow> s | None \<Rightarrow> session)"

section \<open>conversation\_flow.py\<close>

record Question =
  q_id :: string
  q_text :: string

text \<open>The dash of two question texts, as its UTF-8 bytes.\<close>

definition emdash :: string where
  "emdash = [CHR 0xE2, CHR 0x80, CHR 0x94]"

definition screening_questions :: "ScreeningTool \<Rightarrow> Question list" where
  "screening_questions tool =
    (case tool of
       PHQ9 \<Rightarrow>
        [\<lparr> q_id = ''phq9_1'', q_text = ''Little interest or pleasure in doing things'' \<rparr>,
         \<lparr> q_id = ''phq9_2'', q_text = ''Feeling down, depressed, or hopeless'' \<rparr>,
         \<lparr> q_id = ''phq9_3'', q_text = ''Trouble falling or staying asleep, or sleeping too much'' \<rparr>,
         \<lparr> q_id = ''phq9_4'', q_text = ''Feeling tired or having little energy'' \<rparr>,
         \<lparr> q_id = ''phq9_5'', q_text = ''Poor appetite or overeating'' \<rparr>,
         \<lparr> q_id = ''phq9_6'', q_text = ''Feeling bad about yourself '' @ emdash @ '' or that you are a failure or have let yourself or your family down'' \<rparr>,
         \<lparr> q_id = ''phq9_7'', q_text = ''Trouble concentrating on things, such as reading the newspaper or watching television'' \<rparr>,
         \<lparr> q_id = ''phq9_8'', q_text = ''Moving or speaking so slowly that other people could have noticed. Or the opposite '' @ emdash @ '' being so fidgety or restless that you have been moving around a lot more than usual'' \<rparr>,
         \<lparr> q_id = ''phq9_9'', q_text = ''Thoughts that you would be better off dead, or of hurting yourself'' \<rparr>]
     | GAD7 \<Rightarrow>
        [\<lparr> q_id = ''gad7_1'', q_text = ''Feeling nervous, anxious, or on edge'' \<rparr>,
         \<lparr> q_id = ''gad7_2'', q_text = ''Not being able to stop or control worrying'' \<rparr>,
         \<lparr> q_id = ''gad7_3'', q_text = ''Worrying too much about different things'' \<rparr>,
         \<lparr> q_id = ''gad7_4'', q_text = ''Trouble relaxing'' \<rparr>,
         \<lparr> q_id = ''gad7_5'', q_text = ''Being so restless that it is hard to sit still'' \<rparr>,
         \<lparr> q_id = ''gad7_6'', q_text = ''Becoming easily annoyed or irritable'' \<rparr>,
         \<lparr> q_id = ''gad7_7'', q_text = ''Feeling afraid, as if something awful might happen'' \<rparr>]
     | GHQ12 \<Rightarrow>
        [\<lparr> q_id = ''ghq12_1'', q_text = ''Been able to concentrate on whatever you're doing'' \<rparr>,
         \<lparr> q_id = ''ghq12_2'', q_text = ''Lost much sleep over worry'' \<rparr>,
         \<lparr> q_id = ''ghq12_3'', q_text = ''Felt that you are playing a useful part in things'' \<rparr>,
         \<lparr> q_id = ''ghq12_4'', q_text = ''Felt capable of making decisions about things'' \<rparr>,
         \<lparr> q_id = ''ghq12_5'', q_text = ''Felt constantly under strain'' \<rparr>,
         \<lparr> q_id = ''ghq12_6'', q_text = ''Felt you couldn't overcome your difficulties'' \<rparr>,
         \<lparr> q_id = ''ghq12_7'', q_text = ''Been able to enjoy your normal day-to-day activities'' \<rparr>,
         \<lparr> q_id = ''ghq12_8'', q_text = ''Been able to face up to your problems'' \<rparr>,
         \<lparr> q_id = ''ghq12_9'', q_text = ''Been feeling unhappy and depressed'' \<rparr>,
         \<lparr> q_id = ''ghq12_10'', q_text = ''Been losing confidence in yourself'' \<rparr>,
         \<lparr> q_id = ''ghq12_11'', q_text = ''Been thinking of yourself as a worthless person'' \<rparr>,
         \<lparr> q_id = ''ghq12_12'', q_text = ''Been feeling reasonably happy, all things considered'' \<rparr>])"

text \<open>
  The dictionary that the handlers return: a key that a handler does not set is \<open>None\<close>
  (\<open>crisis_detected\<close> is set by every handler).
\<close>

record FlowResult =
  res_error :: "string option"
  res_ai_response :: "string option"
  res_current_phase :: "ConversationPhase option"
  res_crisis_detected :: bool
  res_crisis_level :: "CrisisLevel option"
  res_crisis_trigger :: "string option"
  res_selected_tool :: "ScreeningTool option"
  res_question_number :: "nat option"
  res_total_score :: "int option"
  res_severity_level :: "string option"
  res_screening_tool :: "ScreeningTool option"
  res_completed :: "bool option"
  res_next_action :: "string option"

definition no_result :: FlowResult where
  "no_result =
    \<lparr> res_error = None, res_ai_response = None, res_current_phase = None,
      res_crisis_detected = False, res_crisis_level = None, res_crisis_trigger = None,
      res_selected_tool = None, res_question_number = None, res_total_score = None,
      res_severity_level = None, res_screening_tool = None, res_completed = None,
      res_next_action = None \<rparr>"

text \<open>
  Reading an attribute of a \<open>CrisisResponse\<close>: the dataclass declares five fields and
  nothing else, every other name raises \<open>AttributeError\<close>.
\<close>

datatype attr_value =
  Level_value CrisisLevel | Words_value "string list" | Str_value string | Time_value nat
  | Bool_value bool

definition getattr_CrisisResponse :: "CrisisResponse \<Rightarrow> string \<Rightarrow> exn + attr_value" where
  "getattr_CrisisResponse r name =
    (if name = ''level'' then Inr (Level_value (level r))
     else if name = ''triggered_words'' then Inr (Words_value (triggered_words r))
     else if name = ''message'' then Inr (Str_value (message r))
     else if name = ''timestamp'' then Inr (Time_value (timestamp r))
     else if name = ''requires_override'' then Inr (Bool_value (requires_override r))
     else Inl (AttributeError ([CHR 0x27] @ ''CrisisResponse'' @ [CHR 0x27]
                 @ '' object has no attribute '' @ [CHR 0x27] @ name @ [CHR 0x27])))"

text \<open>The truth value of an attribute in a condition.\<close>

fun truthy :: "attr_value \<Rightarrow> bool" where
  "truthy (Level_value l) = True"
| "truthy (Words_value ws) = (ws \<noteq> [])"
| "truthy (Str_value s) = (s \<noteq> [])"
| "truthy (Time_value t) = True"
| "truthy (Bool_value b) = b"

fun str_nat :: "nat \<Rightarrow> string" where
  "str_nat n = (if n < 10 then [digit_chars ! n] else str_nat (n div 10) @ [digit_chars ! (n mod 10)])"

definition str_int :: "int \<Rightarrow> string" where
  "str_int i = (if i < 0 then ''-'' @ str_nat (nat (- i)) else str_nat (nat i))"

definition screening_context :: "ScreeningTool \<Rightarrow> ConversationContext" where
  "screening_context tool =
    (if tool = PHQ9 then CTX_PHQ9_SCREENING
     else if tool = GAD7 then CTX_GAD7_SCREENING
     else CTX_GHQ12_SCREENING)"

definition get_error_response :: "SessionData \<Rightarrow> string \<Rightarrow> FlowResult" where
  "get_error_response session error_message =
    no_result \<lparr> res_error := Some error_message,
                res_ai_response := Some ''I'm sorry, I encountered an error. Let's try again or start over.'',
                res_current_phase := Some (current_phase session),
                res_crisis_detected := False \<rparr>"

definition depression_keywords :: "string list" where
  "depression_keywords =
    [''sad'', ''depressed'', ''depression'', ''down'', ''hopeless'', ''empty'', ''worthless'']"

definition anxiety_keywords :: "string list" where
  "anxiety_keywords =
    [''anxious'', ''anxiety'', ''worried'', ''worry'', ''nervous'', ''panic'', ''fear'']"

definition determine_screening_tool :: "string \<Rightarrow> ScreeningTool" where
  "determine_screening_tool user_message =
    (let message_lower = lower user_message;
         depression_score = length (filter (contains message_lower) depression_keywords);
         anxiety_score = length (filter (contains message_lower) anxiety_keywords)
     in if depression_score > anxiety_score then PHQ9
        else if anxiety_score > depression_score then GAD7
        else GHQ12)"

definition calculate_severity_level :: "ScreeningTool option \<Rightarrow> int \<Rightarrow> string" where
  "calculate_severity_level screening_tool total_score =
    (if screening_tool = Some PHQ9 then
       (if total_score \<le> 4 then ''minimal''
        else if total_score \<le> 9 then ''mild''
        else if total_score \<le> 14 then ''moderate''
        else if total_score \<le> 19 then ''moderately_severe''
        else ''severe'')
     else if screening_tool = Some GAD7 then
       (if total_score \<le> 4 then ''minimal''
        else if total_score \<le> 9 then ''mild''
        else if total_score \<le> 14 then ''moderate''
        else ''severe'')
     else
       (if total_score \<le> 11 then ''minimal''
        else if total_score \<le> 15 then ''mild''
        else if total_score \<le> 20 then ''moderate''
        else ''severe''))"

definition handle_greeting_phase ::
  "remote_model \<Rightarrow> string \<Rightarrow> string \<Rightarrow> SessionData \<Rightarrow> SessionManager \<Rightarrow> FlowResult \<times> SessionManager" where
  "handle_greeting_phase model session_id user_message session store =
    (if (user_name session = None \<or> user_name session = Some []) \<and> strip user_message \<noteq> [] then
       let potential_name = takeWhile (\<lambda>c. \<not> is_space c) (strip user_message);
           store1 = update_session store session_id [Set_user_name potential_name];
           ai_response = generate_response model user_message CTX_BACKGROUND_CHECK
                           (Some (Some potential_name));
           store2 = update_session store1 session_id [Set_current_phase TRIAGE];
           store3 = add_conversation store2 session_id user_message ai_response TRIAGE
       in (no_result \<lparr> res_ai_response := Some ai_response,
                        res_current_phase := Some TRIAGE,
                        res_crisis_detected := False,
                        res_next_action := Some ''triage_question'' \<rparr>, store3)
     else
       let ai_response = generate_response model user_message CTX_GREETING None;
           store1 = add_conversation store session_id user_message ai_response GREETING
       in (no_result \<lparr> res_ai_response := Some ai_response,
                        res_current_phase := Some GREETING,
                        res_crisis_detected := False,
                        res_next_action := Some ''collect_name'' \<rparr>, store1))"

definition handle_triage_phase ::
  "remote_model \<Rightarrow> string \<Rightarrow> string \<Rightarrow> SessionData \<Rightarrow> SessionManager \<Rightarrow> FlowResult \<times> SessionManager" where
  "handle_triage_phase model session_id user_message session store =
    (let screening_tool = determine_screening_tool user_message;
         store1 = update_session store session_id
                    [Set_selected_tool screening_tool, Set_current_phase SCREENING];
         first_question = hd (screening_questions screening_tool);
         context = screening_context screening_tool;
         ai_response = generate_response model (q_text first_question) context
                         (Some (user_name (current store1 session_id session)));
         store2 = add_conversation store1 session_id user_message ai_response SCREENING
     in (no_result \<lparr> res_ai_response := Some ai_response,
                      res_current_phase := Some SCREENING,
                      res_crisis_detected := False,
                      res_selected_tool := Some screening_tool,
                      res_question_number := Some 1,
                      res_next_action := Some ''screening_question'' \<rparr>, store2))"

text \<open>
  \<open>_transition_to_results\<close>. Without a selected tool the lookup of the questions raises
  \<open>KeyError\<close> and, for a blank message, the read of the tool's value raises
  \<open>AttributeError\<close> after the phase was set; both end in the error response.
\<close>

definition transition_to_results ::
  "remote_model \<Rightarrow> string \<Rightarrow> string \<Rightarrow> SessionData \<Rightarrow> SessionManager \<Rightarrow> FlowResult \<times> SessionManager" where
  "transition_to_results model session_id user_message session store =
    (case selected_tool session of
       None \<Rightarrow>
        if strip user_message \<noteq> [] then (get_error_response session ''None'', store)
        else
          let store1 = update_session store session_id [Set_current_phase RESULTS]
          in (get_error_response (current store1 session_id session)
                ([CHR 0x27] @ ''NoneType'' @ [CHR 0x27] @ '' object has no attribute ''
                 @ [CHR 0x27] @ ''value'' @ [CHR 0x27]), store1)
     | Some tool \<Rightarrow>
        let questions = screening_questions tool;
            current_question_index = length (responses session);
            scored =
              (if strip user_message \<noteq> [] \<and> current_question_index < length questions then
                 let current_question = questions ! current_question_index
                 in (case map_response_to_score model user_message (q_text current_question) tool of
                       Inl e \<Rightarrow> Inl e
                     | Inr (score, explanation) \<Rightarrow>
                        Inr (add_response store session_id (q_id current_question) user_message score))
               else Inr store)
        in (case scored of
              Inl e \<Rightarrow> (get_error_response (current store session_id session) (str_exn e), store)
            | Inr store1 \<Rightarrow>
               let store2 = update_session store1 session_id [Set_current_phase RESULTS];
                   session2 = current store2 session_id session;
                   total_score = get_total_score session2;
                   severity_level = calculate_severity_level (selected_tool session2) total_score;
                   ai_response = generate_response model
                                   (''Screening completed. Total score: '' @ str_int total_score
                                    @ '', Severity: '' @ severity_level)
                                   CTX_RESULTS_EXPLANATION (Some (user_name session2));
                   store3 = update_session store2 session_id [Set_completed True];
                   store4 = add_conversation store3 session_id user_message ai_response RESULTS
               in (no_result \<lparr> res_ai_response := Some ai_response,
                                res_current_phase := Some RESULTS,
                                res_crisis_detected := False,
                                res_total_score := Some total_score,
                                res_severity_level := Some severity_level,
                                res_screening_tool := Some tool,
                                res_completed := Some True,
                                res_next_action := Some ''screening_complete'' \<rparr>, store4)))"

definition handle_phq9_q9_crisis ::
  "string \<Rightarrow> string \<Rightarrow> SessionData \<Rightarrow> int \<Rightarrow> SessionManager \<Rightarrow> FlowResult \<times> SessionManager" where
  "handle_phq9_q9_crisis session_id user_message session score store =
    (let store1 = update_session store session_id
                    [Set_crisis_detected True, Set_current_phase CRISIS_RESPONSE];
         store2 = add_response store1 session_id ''phq9_9'' user_message score;
         crisis_message =
           ''I'm very concerned about what you've shared regarding thoughts of hurting yourself. ''
           @ ''Your safety is the most important thing right now. Please reach out for immediate support. ''
           @ ''If you're in the US, you can call 988 for the Suicide & Crisis Lifeline, ''
           @ ''or contact emergency services at 911 if you're in immediate danger.'';
         store3 = add_conversation store2 session_id user_message crisis_message CRISIS_RESPONSE
     in (no_result \<lparr> res_ai_response := Some crisis_message,
                      res_current_phase := Some CRISIS_RESPONSE,
                      res_crisis_detected := True,
                      res_crisis_trigger := Some ''PHQ9_Q9'',
                      res_next_action := Some ''crisis_intervention'' \<rparr>, store3))"

text \<open>
  \<open>_handle_screening_phase\<close>. \<open>current_question_index\<close> is read once, before any answer
  is recorded, and the same value decides both the guard at the top and the test for more
  questions at the bottom.
\<close>

definition handle_screening_phase ::
  "remote_model \<Rightarrow> string \<Rightarrow> string \<Rightarrow> SessionData \<Rightarrow> SessionManager \<Rightarrow> FlowResult \<times> SessionManager" where
  "handle_screening_phase model session_id user_message session store =
    (case selected_tool session of
       None \<Rightarrow> (get_error_response session ''No screening tool selected'', store)
     | Some screening_tool \<Rightarrow>
        let questions = screening_questions screening_tool;
            current_question_index = length (responses session)
        in if current_question_index \<ge> length questions then
             transition_to_results model session_id user_message session store
           else
             let current_question =
                   (if current_question_index > 0 then questions ! (current_question_index - 1)
                    else questions ! 0);
                 present_next = (\<lambda>store1.
                   if current_question_index < length questions then
                     let next_question = questions ! current_question_index;
                         context = screening_context screening_tool;
                         ai_response = generate_response model (q_text next_question) context
                                         (Some (user_name (current store1 session_id session)));
                         store2 = add_conversation store1 session_id user_message ai_response SCREENING
                     in (no_result \<lparr> res_ai_response := Some ai_response,
                                      res_current_phase := Some SCREENING,
                                      res_crisis_detected := False,
                                      res_selected_tool := Some screening_tool,
                                      res_question_number := Some (current_question_index + 1),
                                      res_next_action := Some ''screening_question'' \<rparr>, store2)
                   else
                     transition_to_results model session_id user_message
                       (current store1 session_id session) store1)
             in if current_question_index > 0 then
                  (case map_response_to_score model user_message (q_text current_question)
                          screening_tool of
                     Inl e \<Rightarrow> (get_error_response (current store session_id session) (str_exn e), store)
                   | Inr (score, explanation) \<Rightarrow>
                      if screening_tool = PHQ9 \<and> q_id current_question = ''phq9_9'' \<and> score > 0 then
                        handle_phq9_q9_crisis session_id user_message session score store
                      else
                        present_next
                          (add_response store session_id (q_id current_question) user_message score))
                else present_next store)"

definition handle_results_phase ::
  "remote_model \<Rightarrow> string \<Rightarrow> string \<Rightarrow> SessionData \<Rightarrow> SessionManager \<Rightarrow> FlowResult \<times> SessionManager" where
  "handle_results_phase model session_id user_message session store =
    (let total_score = get_total_score session;
         severity_level = calculate_severity_level (selected_tool session) total_score
     in (case selected_tool session of
           None \<Rightarrow>
            (get_error_response session
               ([CHR 0x27] @ ''NoneType'' @ [CHR 0x27] @ '' object has no attribute ''
                @ [CHR 0x27] @ ''value'' @ [CHR 0x27]), store)
         | Some tool \<Rightarrow>
            let ai_response = generate_response model
                                (''Total score: '' @ str_int total_score @ '', Severity: '' @ severity_level)
                                CTX_RESULTS_EXPLANATION (Some (user_name session));
                store1 = update_session store session_id [Set_completed True];
                store2 = add_conversation store1 session_id user_message ai_response RESULTS
            in (no_result \<lparr> res_ai_response := Some ai_response,
                             res_current_phase := Some RESULTS,
                             res_crisis_detected := False,
                             res_total_score := Some total_score,
                             res_severity_level := Some severity_level,
                             res_screening_tool := Some tool,
                             res_completed := Some True,
                             res_next_action := Some ''screening_complete'' \<rparr>, store2)))"

definition handle_unknown_phase ::
  "string \<Rightarrow> string \<Rightarrow> SessionData \<Rightarrow> SessionManager \<Rightarrow> FlowResult \<times> SessionManager" where
  "handle_unknown_phase session_id user_message session store =
    (let store1 = update_session store session_id [Set_current_phase GREETING]
     in (no_result \<lparr> res_ai_response :=
                        Some ''I'm sorry, something went wrong. Let's start over. What would you like me to call you?'',
                      res_current_phase := Some GREETING,
                      res_crisis_detected := False,
                      res_next_action := Some ''restart'' \<rparr>, store1))"

definition handle_crisis_response ::
  "string \<Rightarrow> string \<Rightarrow> CrisisResponse \<Rightarrow> SessionManager \<Rightarrow> FlowResult \<times> SessionManager" where
  "handle_crisis_response session_id user_message crisis_response store =
    (let store1 = update_session store session_id
                    [Set_crisis_detected True, Set_current_phase CRISIS_RESPONSE];
         crisis_message =
           (if message crisis_response \<noteq> [] then message crisis_response
            else ''I'm concerned about what you've shared. Please reach out for immediate support.'');
         store2 = add_conversation store1 session_id user_message crisis_message CRISIS_RESPONSE
     in (no_result \<lparr> res_ai_response := Some crisis_message,
                      res_current_phase := Some CRISIS_RESPONSE,
                      res_crisis_detected := True,
                      res_crisis_level := Some (level crisis_response),
                      res_next_action := Some ''crisis_intervention'' \<rparr>, store2))"

text \<open>
  The dispatch on the phase at the end of \<open>process_user_message\<close>: a phase without a
  handler of its own, \<open>CRISIS_RESPONSE\<close> among them, goes to the recovery handler.
\<close>

definition dispatch_phase ::
  "remote_model \<Rightarrow> string \<Rightarrow> string \<Rightarrow> SessionData \<Rightarrow> SessionManager \<Rightarrow> FlowResult \<times> SessionManager" where
  "dispatch_phase model session_id user_message session store =
    (let current_phase = current_phase session
     in if current_phase = GREETING then
          handle_greeting_phase model session_id user_message session store
        else if current_phase = TRIAGE then
          handle_triage_phase model session_id user_message session store
        else if current_phase = SCREENING then
          handle_screening_phase model session_id user_message session store
        else if current_phase = RESULTS then
          handle_results_phase model session_id user_message session store
        else
          handle_unknown_phase session_id user_message session store)"

text \<open>
  \<open>process_user_message\<close>. The condition of the safety check reads the attribute
  \<open>should_override\<close> of the verdict; an exception raised there is caught by the
  \<open>except\<close> clause of the function, which returns the error dictionary and leaves the
  store as it is.
\<close>

definition process_user_message ::
  "SafetyMonitor \<Rightarrow> remote_model \<Rightarrow> nat \<Rightarrow> string \<Rightarrow> string \<Rightarrow> SessionManager
     \<Rightarrow> FlowResult \<times> SessionManager" where
  "process_user_message safety_monitor model now session_id user_message store =
    (case get_session store session_id of
       None \<Rightarrow>
        (no_result \<lparr> res_error := Some ''Session not found or expired'',
                     res_ai_response := None,
                     res_current_phase := None,
                     res_crisis_detected := False \<rparr>, store)
     | Some session \<Rightarrow>
        let crisis_response = check_for_crisis safety_monitor now (Some user_message)
        in (case getattr_CrisisResponse crisis_response ''should_override'' of
              Inl e \<Rightarrow>
               (no_result \<lparr> res_error := Some (''Failed to process message: '' @ str_exn e),
                            res_ai_response := Some ''I'm sorry, I encountered an error. Let's try again.'',
                            res_current_phase := Some (current_phase session),
                            res_crisis_detected := False \<rparr>, store)
            | Inr should_override \<Rightarrow>
               if truthy should_override then
                 handle_crisis_response session_id user_message crisis_response store
               else dispatch_phase model session_id user_message session store))"

section \<open>Sample inputs\<close>

text \<open>A remote model that is out of reach: every call raises.\<close>

definition offline_model :: remote_model where
  "offline_model p = Fails ''service unavailable''"

text \<open>
  Modelled from the spec: \<open>create\<close> of the session store, which is not among the sources,
  allocates a session in the GREETING phase with no tool, no answers and both flags unset.
\<close>

definition new_session :: "string option \<Rightarrow> SessionData" where
  "new_session name =
    \<lparr> user_name = name, current_phase = GREETING, selected_tool = None, responses = [],
      conversation_history = [], crisis_detected = False, completed = False \<rparr>"

text \<open>
  A conversation that the safety check lets through: each message goes to the handler of
  the phase that the session is in.
\<close>

fun run_handlers :: "remote_model \<Rightarrow> string \<Rightarrow> string list \<Rightarrow> SessionManager \<Rightarrow> SessionManager" where
  "run_handlers model session_id [] store = store"
| "run_handlers model session_id (msg # msgs) store =
    (case get_session store session_id of
       None \<Rightarrow> store
     | Some session \<Rightarrow>
        run_handlers model session_id msgs
          (snd (dispatch_phase model session_id msg session store)))"

text \<open>A depression screening in which the first \<open>k\<close> items have an answer on record.\<close>

definition phq9_session :: "nat \<Rightarrow> SessionData" where
  "phq9_session k =
    \<lparr> user_name = Some ''Ann'', current_phase = SCREENING, selected_tool = Some PHQ9,
      responses = map (\<lambda>q. \<lparr> question_id = q_id q, user_text = ''not at all'', mapped_score = 0 \<rparr>)
                    (take k (screening_questions PHQ9)),
      conversation_history = [], crisis_detected = False, completed = False \<rparr>"










section \<open>Verified properties\<close>

subsection \<open>Substring tests\<close>

lemma starts_with_prefix: "starts_with s p = prefix p s"
  by (induction s p rule: starts_with.induct) auto

lemma contains_sublist: "contains s sub = sublist sub s"
  by (induction s) (auto simp: starts_with_prefix sublist_Cons_right)

lemma get_crisis_message_nonempty: "get_crisis_message \<noteq> []"
  by (simp add: get_crisis_message_def)

subsection \<open>The crisis classifier\<close>

text \<open>
  Claim C2. \<open>check_for_crisis\<close> lowercases and trims the text. For a non-empty text: when
  some configured critical trigger (lowercased) is a substring of the normalized text the
  verdict is CRITICAL, the matched list is the list of all such triggers in their configured
  order, the override flag is set and the message is not empty; otherwise, when some warning
  indicator is a substring, the verdict is WARNING with the matching warning words and no
  override; otherwise, and for an empty or absent text, the verdict is NONE with an empty
  matched list and no override. The function is total, so no case ends in an error.
\<close>

theorem check_for_crisis_verdict:
  "(t \<noteq> [] \<and> (\<exists>w \<in> set (critical_triggers m). sublist (lower w) (normalize t)) \<longrightarrow>
      level (check_for_crisis m now (Some t)) = CRITICAL \<and>
      triggered_words (check_for_crisis m now (Some t))
        = filter (\<lambda>w. sublist (lower w) (normalize t)) (critical_triggers m) \<and>
      requires_override (check_for_crisis m now (Some t)) \<and>
      message (check_for_crisis m now (Some t)) \<noteq> [])
   \<and> (t \<noteq> [] \<and> \<not> (\<exists>w \<in> set (critical_triggers m). sublist (lower w) (normalize t)) \<and>
        (\<exists>w \<in> set (warning_indicators m). sublist (lower w) (normalize t)) \<longrightarrow>
      level (check_for_crisis m now (Some t)) = WARNING \<and>
      triggered_words (check_for_crisis m now (Some t))
        = filter (\<lambda>w. sublist (lower w) (normalize t)) (warning_indicators m) \<and>
      \<not> requires_override (check_for_crisis m now (Some t)))
   \<and> (t = [] \<or> (\<not> (\<exists>w \<in> set (critical_triggers m). sublist (lower w) (normalize t)) \<and>
                  \<not> (\<exists>w \<in> set (warning_indicators m). sublist (lower w) (normalize t))) \<longrightarrow>
      level (check_for_crisis m now (Some t)) = NONE \<and>
      triggered_words (check_for_crisis m now (Some t)) = [] \<and>
      \<not> requires_override (check_for_crisis m now (Some t)))
   \<and> level (check_for_crisis m now None) = NONE
   \<and> triggered_words (check_for_crisis m now None) = []
   \<and> \<not> requires_override (check_for_crisis m now None)"
  by (auto simp: check_for_crisis_def Let_def contains_sublist filter_empty_conv no_crisis_def
      get_crisis_message_nonempty)

theorem check_for_crisis_verdict_witness:
  "level (check_for_crisis (init_SafetyMonitor None) 7 (Some ''I want to KILL myself '')) = CRITICAL
   \<and> triggered_words (check_for_crisis (init_SafetyMonitor None) 7 (Some ''I want to KILL myself ''))
       = [''kill myself'']
   \<and> level (check_for_crisis (init_SafetyMonitor None) 7 (Some ''I feel Hopeless'')) = WARNING
   \<and> level (check_for_crisis (init_SafetyMonitor None) 7 (Some ''hello there'')) = NONE"
proof -
  let ?m = "init_SafetyMonitor None"
  have c: "\<exists>w \<in> set (critical_triggers ?m). sublist (lower w) (normalize ''I want to KILL myself '')"
    by code_simp
  have f: "filter (\<lambda>w. sublist (lower w) (normalize ''I want to KILL myself '')) (critical_triggers ?m)
           = [''kill myself'']"
    by code_simp
  have w: "\<not> (\<exists>w \<in> set (critical_triggers ?m). sublist (lower w) (normalize ''I feel Hopeless''))
           \<and> (\<exists>w \<in> set (warning_indicators ?m). sublist (lower w) (normalize ''I feel Hopeless''))"
    by code_simp
  have n: "\<not> (\<exists>w \<in> set (critical_triggers ?m). sublist (lower w) (normalize ''hello there''))
           \<and> \<not> (\<exists>w \<in> set (warning_indicators ?m). sublist (lower w) (normalize ''hello there''))"
    by code_simp
  show ?thesis
    using c f w n
      check_for_crisis_verdict [of "''I want to KILL myself ''" ?m 7]
      check_for_crisis_verdict [of "''I feel Hopeless''" ?m 7]
      check_for_crisis_verdict [of "''hello there''" ?m 7]
    by simp
qed

subsection \<open>Severity bands\<close>

text \<open>
  Claim C6. For every total score the band of the depression instrument is minimal up to 4,
  mild up to 9, moderate up to 14, moderately severe up to 19 and severe above; that of the
  anxiety instrument is minimal up to 4, mild up to 9, moderate up to 14 and severe above;
  that of the general-purpose instrument is minimal up to 11, mild up to 15, moderate up to
  20 and severe above, every bound inclusive.
\<close>

theorem calculate_severity_level_bands:
  "(calculate_severity_level (Some PHQ9) n = ''minimal'' \<longleftrightarrow> n \<le> 4)
   \<and> (calculate_severity_level (Some PHQ9) n = ''mild'' \<longleftrightarrow> 5 \<le> n \<and> n \<le> 9)
   \<and> (calculate_severity_level (Some PHQ9) n = ''moderate'' \<longleftrightarrow> 10 \<le> n \<and> n \<le> 14)
   \<and> (calculate_severity_level (Some PHQ9) n = ''moderately_severe'' \<longleftrightarrow> 15 \<le> n \<and> n \<le> 19)
   \<and> (calculate_severity_level (Some PHQ9) n = ''severe'' \<longleftrightarrow> 20 \<le> n)
   \<and> (calculate_severity_level (Some GAD7) n = ''minimal'' \<longleftrightarrow> n \<le> 4)
   \<and> (calculate_severity_level (Some GAD7) n = ''mild'' \<longleftrightarrow> 5 \<le> n \<and> n \<le> 9)
   \<and> (calculate_severity_level (Some GAD7) n = ''moderate'' \<longleftrightarrow> 10 \<le> n \<and> n \<le> 14)
   \<and> (calculate_severity_level (Some GAD7) n = ''severe'' \<longleftrightarrow> 15 \<le> n)
   \<and> (calculate_severity_level (Some GHQ12) n = ''minimal'' \<longleftrightarrow> n \<le> 11)
   \<and> (calculate_severity_level (Some GHQ12) n = ''mild'' \<longleftrightarrow> 12 \<le> n \<and> n \<le> 15)
   \<and> (calculate_severity_level (Some GHQ12) n = ''moderate'' \<longleftrightarrow> 16 \<le> n \<and> n \<le> 20)
   \<and> (calculate_severity_level (Some GHQ12) n = ''severe'' \<longleftrightarrow> 21 \<le> n)"
  by (simp add: calculate_severity_level_def)

subsection \<open>Determinism of the classifiers\<close>








subsection \<open>Scoring of answers\<close>

lemma fallback_scoring_range: "fst (fallback_scoring r) \<in> {0, 1, 2, 3}"
  by (simp add: fallback_scoring_def Let_def)

lemma map_response_to_score_try_range:
  "map_response_to_score_try model r q tool = Inr (Some (score, e)) \<Longrightarrow> 0 \<le> score \<and> score \<le> 3"
  by (auto simp: map_response_to_score_try_def Let_def
      split: reply.splits if_splits option.splits sum.splits)

lemma fallback_scoring_buckets:
  "fst (fallback_scoring r) =
    (if \<exists>w \<in> set [''always'', ''constantly'', ''every day'', ''all the time'', ''never stops''].
          sublist w (lower r) then 3
     else if \<exists>w \<in> set [''often'', ''frequently'', ''most days'', ''usually'']. sublist w (lower r) then 2
     else if \<exists>w \<in> set [''sometimes'', ''occasionally'', ''few times'', ''now and then''].
          sublist w (lower r) then 1
     else if \<exists>w \<in> set [''never'', ''not at all'', ''rarely'', ''hardly ever'']. sublist w (lower r) then 0
     else 1)"
  unfolding fallback_scoring_def Let_def list_ex_iff contains_sublist
  by (simp only: if_distrib [of fst] fst_conv cong: if_cong)

lemma map_response_to_score_recovers:
  "map_response_to_score_try model r q tool = Inl e \<or> map_response_to_score_try model r q tool = Inr None
   \<Longrightarrow> map_response_to_score model r q tool = Inr (fallback_scoring r)"
  by (auto simp: map_response_to_score_def)


text \<open>
  Claim C9. When the call of the remote model raises, when its text is empty or has no line
  that starts with \<open>SCORE:\<close> or none that starts with \<open>EXPLANATION:\<close>, when the score
  field is not an integer literal, or when the integer is outside 0 to 3, the result of
  \<open>map_response_to_score\<close> is the result of the fallback scorer on the answer, returned and
  not raised. The fallback scorer tests its keyword buckets in order on the lowercased
  answer: a word of the bucket of \<open>always\<close> gives 3, else one of the bucket of \<open>often\<close>
  gives 2, else one of the bucket of \<open>sometimes\<close> gives 1, else one of the bucket of
  \<open>never\<close> gives 0, and an answer with none of them gives 1.
\<close>

theorem map_response_to_score_fallback:
  "(model (Scoring_prompt r q tool) = Fails e \<longrightarrow>
      map_response_to_score model r q tool = Inr (fallback_scoring r))
   \<and> (model (Scoring_prompt r q tool) = Text txt \<and>
        (txt = []
         \<or> find (\<lambda>line. starts_with line ''SCORE:'') (split_on (CHR 0x0A) (strip txt)) = None
         \<or> find (\<lambda>line. starts_with line ''EXPLANATION:'') (split_on (CHR 0x0A) (strip txt)) = None) \<longrightarrow>
      map_response_to_score model r q tool = Inr (fallback_scoring r))
   \<and> (model (Scoring_prompt r q tool) = Text txt \<and>
        find (\<lambda>line. starts_with line ''SCORE:'') (split_on (CHR 0x0A) (strip txt)) = Some sl \<and>
        index_list (split_on (CHR '':'') sl) 1 = Inr field \<and>
        (py_int (strip field) = Inl err
         \<or> (py_int (strip field) = Inr score \<and> (score < 0 \<or> 3 < score))) \<longrightarrow>
      map_response_to_score model r q tool = Inr (fallback_scoring r))
   \<and> ((\<exists>w \<in> set [''always'', ''constantly'', ''every day'', ''all the time'', ''never stops''].
          sublist w (lower r)) \<longrightarrow> fst (fallback_scoring r) = 3)
   \<and> (\<not> (\<exists>w \<in> set [''always'', ''constantly'', ''every day'', ''all the time'', ''never stops''].
          sublist w (lower r)) \<and>
       (\<exists>w \<in> set [''often'', ''frequently'', ''most days'', ''usually'']. sublist w (lower r)) \<longrightarrow>
         fst (fallback_scoring r) = 2)
   \<and> (\<not> (\<exists>w \<in> set [''always'', ''constantly'', ''every day'', ''all the time'', ''never stops''].
          sublist w (lower r)) \<and>
       \<not> (\<exists>w \<in> set [''often'', ''frequently'', ''most days'', ''usually'']. sublist w (lower r)) \<and>
       (\<exists>w \<in> set [''sometimes'', ''occasionally'', ''few times'', ''now and then''].
          sublist w (lower r)) \<longrightarrow> fst (fallback_scoring r) = 1)
   \<and> (\<not> (\<exists>w \<in> set [''always'', ''constantly'', ''every day'', ''all the time'', ''never stops''].
          sublist w (lower r)) \<and>
       \<not> (\<exists>w \<in> set [''often'', ''frequently'', ''most days'', ''usually'']. sublist w (lower r)) \<and>
       \<not> (\<exists>w \<in> set [''sometimes'', ''occasionally'', ''few times'', ''now and then''].
          sublist w (lower r)) \<and>
       (\<exists>w \<in> set [''never'', ''not at all'', ''rarely'', ''hardly ever'']. sublist w (lower r)) \<longrightarrow>
         fst (fallback_scoring r) = 0)
   \<and> (\<not> (\<exists>w \<in> set [''always'', ''constantly'', ''every day'', ''all the time'', ''never stops''].
          sublist w (lower r)) \<and>
       \<not> (\<exists>w \<in> set [''often'', ''frequently'', ''most days'', ''usually'']. sublist w (lower r)) \<and>
       \<not> (\<exists>w \<in> set [''sometimes'', ''occasionally'', ''few times'', ''now and then''].
          sublist w (lower r)) \<and>
       \<not> (\<exists>w \<in> set [''never'', ''not at all'', ''rarely'', ''hardly ever'']. sublist w (lower r)) \<longrightarrow>
         fst (fallback_scoring r) = 1)"
proof -
  have a: "model (Scoring_prompt r q tool) = Fails e \<longrightarrow>
      map_response_to_score model r q tool = Inr (fallback_scoring r)"
    by (simp add: map_response_to_score_def map_response_to_score_try_def)
  have b: "model (Scoring_prompt r q tool) = Text txt \<and>
        (txt = []
         \<or> find (\<lambda>line. starts_with line ''SCORE:'') (split_on (CHR 0x0A) (strip txt)) = None
         \<or> find (\<lambda>line. starts_with line ''EXPLANATION:'') (split_on (CHR 0x0A) (strip txt)) = None) \<longrightarrow>
      map_response_to_score model r q tool = Inr (fallback_scoring r)"
    by (auto simp: map_response_to_score_def map_response_to_score_try_def Let_def
        split: option.splits sum.splits)
  have c: "model (Scoring_prompt r q tool) = Text txt \<and>
        find (\<lambda>line. starts_with line ''SCORE:'') (split_on (CHR 0x0A) (strip txt)) = Some sl \<and>
        index_list (split_on (CHR '':'') sl) 1 = Inr field \<and>
        (py_int (strip field) = Inl err
         \<or> (py_int (strip field) = Inr score \<and> (score < 0 \<or> 3 < score))) \<longrightarrow>
      map_response_to_score model r q tool = Inr (fallback_scoring r)"
    by (auto simp: map_response_to_score_def map_response_to_score_try_def Let_def
        split: option.splits sum.splits)
  have d1: "(\<exists>w \<in> set [''always'', ''constantly'', ''every day'', ''all the time'', ''never stops''].
          sublist w (lower r)) \<longrightarrow> fst (fallback_scoring r) = 3"
    by (simp add: fallback_scoring_buckets)
  have d2: "\<not> (\<exists>w \<in> set [''always'', ''constantly'', ''every day'', ''all the time'', ''never stops''].
          sublist w (lower r)) \<and>
       (\<exists>w \<in> set [''often'', ''frequently'', ''most days'', ''usually'']. sublist w (lower r)) \<longrightarrow>
         fst (fallback_scoring r) = 2"
    by (simp add: fallback_scoring_buckets)
  have d3: "\<not> (\<exists>w \<in> set [''always'', ''constantly'', ''every day'', ''all the time'', ''never stops''].
          sublist w (lower r)) \<and>
       \<not> (\<exists>w \<in> set [''often'', ''frequently'', ''most days'', ''usually'']. sublist w (lower r)) \<and>
       (\<exists>w \<in> set [''sometimes'', ''occasionally'', ''few times'', ''now and then''].
          sublist w (lower r)) \<longrightarrow> fst (fallback_scoring r) = 1"
    by (simp add: fallback_scoring_buckets)
  have d4: "\<not> (\<exists>w \<in> set [''always'', ''constantly'', ''every day'', ''all the time'', ''never stops''].
          sublist w (lower r)) \<and>
       \<not> (\<exists>w \<in> set [''often'', ''frequently'', ''most days'', ''usually'']. sublist w (lower r)) \<and>
       \<not> (\<exists>w \<in> set [''sometimes'', ''occasionally'', ''few times'', ''now and then''].
          sublist w (lower r)) \<and>
       (\<exists>w \<in> set [''never'', ''not at all'', ''rarely'', ''hardly ever'']. sublist w (lower r)) \<longrightarrow>
         fst (fallback_scoring r) = 0"
    by (simp add: fallback_scoring_buckets)
  have d5: "\<not> (\<exists>w \<in> set [''always'', ''constantly'', ''every day'', ''all the time'', ''never stops''].
          sublist w (lower r)) \<and>
       \<not> (\<exists>w \<in> set [''often'', ''frequently'', ''most days'', ''usually'']. sublist w (lower r)) \<and>
       \<not> (\<exists>w \<in> set [''sometimes'', ''occasionally'', ''few times'', ''now and then''].
          sublist w (lower r)) \<and>
       \<not> (\<exists>w \<in> set [''never'', ''not at all'', ''rarely'', ''hardly ever'']. sublist w (lower r)) \<longrightarrow>
         fst (fallback_scoring r) = 1"
    by (simp add: fallback_scoring_buckets)
  show ?thesis
    by (intro conjI) (rule a b c d1 d2 d3 d4 d5)+
qed


theorem map_response_to_score_fallback_witness:
  "map_response_to_score offline_model ''Nearly every day'' ''Trouble relaxing'' GAD7
     = Inr (fallback_scoring ''Nearly every day'')
   \<and> fst (fallback_scoring ''Nearly every day'') = 3
   \<and> map_response_to_score (\<lambda>p. Text (''SCORE: 7'' @ [CHR 0x0A] @ ''EXPLANATION: very high''))
        ''never'' ''Trouble relaxing'' GAD7
     = Inr (fallback_scoring ''never'')
   \<and> fst (fallback_scoring ''never'') = 0"
proof -
  let ?reply = "''SCORE: 7'' @ [CHR 0x0A] @ ''EXPLANATION: very high''"
  have down: "offline_model (Scoring_prompt ''Nearly every day'' ''Trouble relaxing'' GAD7)
              = Fails ''service unavailable''"
    by (simp add: offline_model_def)
  have high: "\<exists>w \<in> set [''always'', ''constantly'', ''every day'', ''all the time'', ''never stops''].
                sublist w (lower ''Nearly every day'')"
    by code_simp
  have line: "find (\<lambda>line. starts_with line ''SCORE:'') (split_on (CHR 0x0A) (strip ?reply))
              = Some ''SCORE: 7''"
    by code_simp
  have field: "index_list (split_on (CHR '':'') ''SCORE: 7'') 1 = Inr '' 7''"
    by code_simp
  have score: "py_int (strip '' 7'') = Inr 7"
    by code_simp
  have none: "\<not> (\<exists>w \<in> set [''always'', ''constantly'', ''every day'', ''all the time'', ''never stops''].
                sublist w (lower ''never''))
      \<and> \<not> (\<exists>w \<in> set [''often'', ''frequently'', ''most days'', ''usually'']. sublist w (lower ''never''))
      \<and> \<not> (\<exists>w \<in> set [''sometimes'', ''occasionally'', ''few times'', ''now and then''].
                sublist w (lower ''never''))
      \<and> (\<exists>w \<in> set [''never'', ''not at all'', ''rarely'', ''hardly ever'']. sublist w (lower ''never''))"
    by code_simp
  have a: "map_response_to_score offline_model ''Nearly every day'' ''Trouble relaxing'' GAD7
           = Inr (fallback_scoring ''Nearly every day'')
           \<and> fst (fallback_scoring ''Nearly every day'') = 3"
    using down high
      map_response_to_score_fallback
        [of offline_model "''Nearly every day''" "''Trouble relaxing''" GAD7 "''service unavailable''"]
    by blast
  have b: "map_response_to_score (\<lambda>p. Text ?reply) ''never'' ''Trouble relaxing'' GAD7
           = Inr (fallback_scoring ''never'')
           \<and> fst (fallback_scoring ''never'') = 0"
    using line field score none
      map_response_to_score_fallback
        [of "\<lambda>p. Text ?reply" "''never''" "''Trouble relaxing''" GAD7 _ ?reply "''SCORE: 7''"
            "'' 7''" _ 7]
    by simp
  show ?thesis using a b by simp
qed


text \<open>
  Claim C10. For every behaviour of the remote model and every answer,
  \<open>map_response_to_score\<close> returns a pair whose score is 0, 1, 2 or 3: the fallback scorer
  only gives these scores, and it replaces every reply that raises inside the \<open>try\<close> block
  or falls through it (a reply that does not parse, or whose score is out of range).
\<close>

theorem map_response_to_score_total:
  "(\<exists>score explanation.
      map_response_to_score model user_response question_context screening_tool = Inr (score, explanation)
      \<and> score \<in> {0, 1, 2, 3})
   \<and> fst (fallback_scoring user_response) \<in> {0, 1, 2, 3}
   \<and> ((\<exists>e. map_response_to_score_try model user_response question_context screening_tool = Inl e)
        \<or> map_response_to_score_try model user_response question_context screening_tool = Inr None
       \<longrightarrow> map_response_to_score model user_response question_context screening_tool
             = Inr (fallback_scoring user_response))"
proof -
  have total: "\<exists>score explanation.
      map_response_to_score model user_response question_context screening_tool = Inr (score, explanation)
      \<and> score \<in> {0, 1, 2, 3}"
  proof (cases "map_response_to_score_try model user_response question_context screening_tool")
    case (Inl e)
    then show ?thesis
      using fallback_scoring_range [of user_response]
      by (cases "fallback_scoring user_response") (simp add: map_response_to_score_def)
  next
    case (Inr res)
    show ?thesis
    proof (cases res)
      case None
      then show ?thesis
        using Inr fallback_scoring_range [of user_response]
        by (cases "fallback_scoring user_response") (simp add: map_response_to_score_def)
    next
      case (Some p)
      obtain score e where p: "p = (score, e)" by (cases p)
      have "0 \<le> score \<and> score \<le> 3"
        using map_response_to_score_try_range Inr Some p by blast
      then have "score \<in> {0, 1, 2, 3}" by auto
      then show ?thesis using Inr Some p by (simp add: map_response_to_score_def)
    qed
  qed
  have recover: "(\<exists>e. map_response_to_score_try model user_response question_context screening_tool = Inl e)
        \<or> map_response_to_score_try model user_response question_context screening_tool = Inr None
       \<longrightarrow> map_response_to_score model user_response question_context screening_tool
             = Inr (fallback_scoring user_response)"
    by (auto simp: map_response_to_score_def)
  show ?thesis
    using total recover fallback_scoring_range [of user_response] by blast
qed

theorem map_response_to_score_total_witness:
  "map_response_to_score offline_model ''most days'' ''Trouble relaxing'' GAD7
     = Inr (fallback_scoring ''most days'')
   \<and> fst (fallback_scoring ''most days'') \<in> {0, 1, 2, 3}"
proof -
  have "map_response_to_score_try offline_model ''most days'' ''Trouble relaxing'' GAD7
        = Inl (CollaboratorError ''service unavailable'')"
    by (simp add: map_response_to_score_try_def offline_model_def)
  then show ?thesis
    using map_response_to_score_total
      [of offline_model "''most days''" "''Trouble relaxing''" GAD7]
    by simp
qed


subsection \<open>Triage\<close>

lemma update_session_present:
  "store sid = Some s \<Longrightarrow> update_session store sid cs = store (sid := Some (fold apply_change cs s))"
  by (simp add: update_session_def)

lemma add_conversation_present:
  "store sid = Some s \<Longrightarrow>
   add_conversation store sid u a p
     = store (sid := Some (s \<lparr> conversation_history := conversation_history s @ [(u, a, p)] \<rparr>))"
  by (simp add: add_conversation_def)

lemma add_response_present:
  "store sid = Some s \<Longrightarrow>
   add_response store sid q t n
     = store (sid := Some (s \<lparr> responses := responses s @
          [\<lparr> question_id = q, user_text = t, mapped_score = n \<rparr>] \<rparr>))"
  by (simp add: add_response_def)

lemma determine_screening_tool_counts:
  "determine_screening_tool msg =
    (if length (filter (\<lambda>k. sublist k (lower msg)) anxiety_keywords)
          < length (filter (\<lambda>k. sublist k (lower msg)) depression_keywords) then PHQ9
     else if length (filter (\<lambda>k. sublist k (lower msg)) depression_keywords)
          < length (filter (\<lambda>k. sublist k (lower msg)) anxiety_keywords) then GAD7
     else GHQ12)"
proof -
  have c: "contains (lower msg) = (\<lambda>k. sublist k (lower msg))"
    by (rule ext) (rule contains_sublist)
  show ?thesis
    unfolding determine_screening_tool_def Let_def c by auto
qed

lemma handle_triage_phase_effect:
  assumes "store session_id = Some session"
  shows "handle_triage_phase model session_id msg session store =
    (no_result \<lparr> res_ai_response := Some (generate_response model
                      (q_text (hd (screening_questions (determine_screening_tool msg))))
                      (screening_context (determine_screening_tool msg)) (Some (user_name session))),
                  res_current_phase := Some SCREENING,
                  res_crisis_detected := False,
                  res_selected_tool := Some (determine_screening_tool msg),
                  res_question_number := Some 1,
                  res_next_action := Some ''screening_question'' \<rparr>,
     store (session_id := Some (session
        \<lparr> selected_tool := Some (determine_screening_tool msg),
          current_phase := SCREENING,
          conversation_history := conversation_history session @
            [(msg, generate_response model
                      (q_text (hd (screening_questions (determine_screening_tool msg))))
                      (screening_context (determine_screening_tool msg)) (Some (user_name session)),
              SCREENING)] \<rparr>)))"
  using assms
  by (simp add: handle_triage_phase_def Let_def update_session_present add_conversation_present
      current_def)


text \<open>
  Claim C5. For a live session, the triage handler counts the depression keywords and the
  anxiety keywords that are substrings of the lowercased message. Strictly more depression
  matches select PHQ-9, strictly more anxiety matches select GAD-7, equal counts (zero and
  zero among them) select GHQ-12. The selected instrument is stored as the session's
  \<open>selected_tool\<close>, the stored phase becomes SCREENING, and the result reports phase
  SCREENING, question number 1 and the wording for the first question of the instrument.
\<close>

theorem handle_triage_phase_selects:
  assumes "get_session store session_id = Some session"
  shows
    "(length (filter (\<lambda>k. sublist k (lower msg)) anxiety_keywords)
        < length (filter (\<lambda>k. sublist k (lower msg)) depression_keywords)
      \<longrightarrow> res_selected_tool (fst (handle_triage_phase model session_id msg session store)) = Some PHQ9)
     \<and> (length (filter (\<lambda>k. sublist k (lower msg)) depression_keywords)
        < length (filter (\<lambda>k. sublist k (lower msg)) anxiety_keywords)
      \<longrightarrow> res_selected_tool (fst (handle_triage_phase model session_id msg session store)) = Some GAD7)
     \<and> (length (filter (\<lambda>k. sublist k (lower msg)) depression_keywords)
        = length (filter (\<lambda>k. sublist k (lower msg)) anxiety_keywords)
      \<longrightarrow> res_selected_tool (fst (handle_triage_phase model session_id msg session store)) = Some GHQ12)
     \<and> map_option selected_tool (get_session (snd (handle_triage_phase model session_id msg session store)) session_id)
         = Some (res_selected_tool (fst (handle_triage_phase model session_id msg session store)))
     \<and> map_option current_phase (get_session (snd (handle_triage_phase model session_id msg session store)) session_id)
         = Some SCREENING
     \<and> res_current_phase (fst (handle_triage_phase model session_id msg session store)) = Some SCREENING
     \<and> res_question_number (fst (handle_triage_phase model session_id msg session store)) = Some 1
     \<and> (\<exists>tool. res_selected_tool (fst (handle_triage_phase model session_id msg session store)) = Some tool
          \<and> res_ai_response (fst (handle_triage_phase model session_id msg session store))
              = Some (generate_response model (q_text (screening_questions tool ! 0))
                        (screening_context tool) (Some (user_name session))))"
proof -
  have s: "store session_id = Some session" using assms by (simp add: get_session_def)
  have hd0: "\<And>tool. hd (screening_questions tool) = screening_questions tool ! 0"
    by (case_tac tool) (simp_all add: screening_questions_def)
  show ?thesis
    by (simp add: handle_triage_phase_effect [where store = store and session_id = session_id, OF s]
        get_session_def determine_screening_tool_counts hd0)
qed

theorem handle_triage_phase_selects_witness:
  "res_selected_tool (fst (handle_triage_phase offline_model ''s1''
       ''I've been really anxious and worried''
       ((new_session (Some ''Bob'')) \<lparr> current_phase := TRIAGE \<rparr>)
       (Map.empty (''s1'' \<mapsto> (new_session (Some ''Bob'')) \<lparr> current_phase := TRIAGE \<rparr>)))) = Some GAD7
   \<and> map_option current_phase (get_session (snd (handle_triage_phase offline_model ''s1''
       ''I've been really anxious and worried''
       ((new_session (Some ''Bob'')) \<lparr> current_phase := TRIAGE \<rparr>)
       (Map.empty (''s1'' \<mapsto> (new_session (Some ''Bob'')) \<lparr> current_phase := TRIAGE \<rparr>)))) ''s1'')
      = Some SCREENING
   \<and> map_option selected_tool (get_session (snd (handle_triage_phase offline_model ''s1''
       ''I've been really anxious and worried''
       ((new_session (Some ''Bob'')) \<lparr> current_phase := TRIAGE \<rparr>)
       (Map.empty (''s1'' \<mapsto> (new_session (Some ''Bob'')) \<lparr> current_phase := TRIAGE \<rparr>)))) ''s1'')
      = Some (Some GAD7)"
proof -
  let ?s = "(new_session (Some ''Bob'')) \<lparr> current_phase := TRIAGE \<rparr>"
  let ?store = "Map.empty (''s1'' \<mapsto> ?s)"
  let ?msg = "''I've been really anxious and worried''"
  have live: "get_session ?store ''s1'' = Some ?s"
    by (simp add: get_session_def)
  have more: "length (filter (\<lambda>k. sublist k (lower ?msg)) depression_keywords)
              < length (filter (\<lambda>k. sublist k (lower ?msg)) anxiety_keywords)"
    by code_simp
  let ?r = "handle_triage_phase offline_model ''s1'' ?msg ?s ?store"
  note T = handle_triage_phase_selects [OF live, of ?msg offline_model]
  have t: "res_selected_tool (fst ?r) = Some GAD7"
    using T more by blast
  have p: "map_option current_phase (get_session (snd ?r) ''s1'') = Some SCREENING"
    using T by blast
  have "map_option selected_tool (get_session (snd ?r) ''s1'') = Some (res_selected_tool (fst ?r))"
    using T by blast
  then have q: "map_option selected_tool (get_session (snd ?r) ''s1'') = Some (Some GAD7)"
    by (simp only: t)
  show ?thesis
    by (intro conjI) (rule t, rule p, rule q)
qed

subsection \<open>The safety check of \<open>process_user_message\<close>\<close>

lemma process_user_message_raises:
  assumes "get_session store session_id = Some session"
  shows "process_user_message safety_monitor model now session_id user_message store =
    (no_result \<lparr> res_error := Some (''Failed to process message: '' @ [CHR 0x27] @ ''CrisisResponse''
                     @ [CHR 0x27] @ '' object has no attribute '' @ [CHR 0x27] @ ''should_override''
                     @ [CHR 0x27]),
                  res_ai_response := Some ''I'm sorry, I encountered an error. Let's try again.'',
                  res_current_phase := Some (current_phase session),
                  res_crisis_detected := False \<rparr>, store)"
  using assms by (simp add: process_user_message_def getattr_CrisisResponse_def Let_def)


text \<open>
  Claim C1, evaluated at a failing input. \<open>process_user_message\<close> reads the attribute
  \<open>should_override\<close> of the verdict, which the dataclass \<open>CrisisResponse\<close> does not
  declare (its flag is \<open>requires_override\<close>), so for every live session and every message
  the read raises and the function returns its error dictionary. For a fresh session and
  the text "I want to kill myself", whose verdict is CRITICAL, the result has
  \<open>crisis_detected\<close> False and no crisis level, it reports the phase GREETING and the
  attribute error, and the stored session is unchanged.
\<close>

theorem process_user_message_crisis_text:
  "level (check_for_crisis (init_SafetyMonitor None) 0 (Some ''I want to kill myself'')) = CRITICAL
   \<and> res_crisis_detected (fst (process_user_message (init_SafetyMonitor None) offline_model 0 ''s1''
         ''I want to kill myself'' (Map.empty (''s1'' \<mapsto> new_session None)))) = False
   \<and> res_crisis_level (fst (process_user_message (init_SafetyMonitor None) offline_model 0 ''s1''
         ''I want to kill myself'' (Map.empty (''s1'' \<mapsto> new_session None)))) = None
   \<and> res_current_phase (fst (process_user_message (init_SafetyMonitor None) offline_model 0 ''s1''
         ''I want to kill myself'' (Map.empty (''s1'' \<mapsto> new_session None)))) = Some GREETING
   \<and> res_error (fst (process_user_message (init_SafetyMonitor None) offline_model 0 ''s1''
         ''I want to kill myself'' (Map.empty (''s1'' \<mapsto> new_session None))))
       = Some (''Failed to process message: '' @ [CHR 0x27] @ ''CrisisResponse'' @ [CHR 0x27]
               @ '' object has no attribute '' @ [CHR 0x27] @ ''should_override'' @ [CHR 0x27])
   \<and> get_session (snd (process_user_message (init_SafetyMonitor None) offline_model 0 ''s1''
         ''I want to kill myself'' (Map.empty (''s1'' \<mapsto> new_session None)))) ''s1''
       = Some (new_session None)"
proof -
  have critical:
    "level (check_for_crisis (init_SafetyMonitor None) 0 (Some ''I want to kill myself'')) = CRITICAL"
    by code_simp
  have live: "get_session (Map.empty (''s1'' \<mapsto> new_session None)) ''s1'' = Some (new_session None)"
    by (simp add: get_session_def)
  show ?thesis
    unfolding process_user_message_raises [OF live]
    using critical by (simp add: no_result_def new_session_def get_session_def)
qed


subsection \<open>The screening handler\<close>

lemma screening_questions_nonempty: "0 < length (screening_questions tool)"
  by (cases tool) (simp_all add: screening_questions_def)

lemma handle_screening_phase_unanswered:
  assumes "store sid = Some s" and "selected_tool s = Some tool" and "responses s = []"
  shows "handle_screening_phase model sid msg s store =
    (no_result \<lparr> res_ai_response := Some (generate_response model
                      (q_text (screening_questions tool ! 0)) (screening_context tool)
                      (Some (user_name s))),
                  res_current_phase := Some SCREENING,
                  res_crisis_detected := False,
                  res_selected_tool := Some tool,
                  res_question_number := Some 1,
                  res_next_action := Some ''screening_question'' \<rparr>,
     store (sid := Some (s \<lparr> conversation_history := conversation_history s @
        [(msg, generate_response model (q_text (screening_questions tool ! 0))
                 (screening_context tool) (Some (user_name s)), SCREENING)] \<rparr>)))"
  using assms screening_questions_nonempty [of tool]
  by (simp add: handle_screening_phase_def Let_def add_conversation_present current_def)

lemma run_handlers_screening_stuck:
  assumes "store sid = Some s" and "current_phase s = SCREENING"
    and "selected_tool s = Some tool" and "responses s = []"
  shows "\<exists>s'. run_handlers model sid msgs store sid = Some s' \<and> current_phase s' = SCREENING
           \<and> selected_tool s' = Some tool \<and> responses s' = [] \<and> completed s' = completed s
           \<and> user_name s' = user_name s \<and> crisis_detected s' = crisis_detected s"
  using assms
proof (induction msgs arbitrary: store s)
  case Nil
  then show ?case by simp
next
  case (Cons msg msgs)
  let ?s1 = "s \<lparr> conversation_history := conversation_history s @
        [(msg, generate_response model (q_text (screening_questions tool ! 0))
                 (screening_context tool) (Some (user_name s)), SCREENING)] \<rparr>"
  let ?store1 = "store (sid := Some ?s1)"
  have step: "run_handlers model sid (msg # msgs) store = run_handlers model sid msgs ?store1"
    using Cons.prems
    by (simp add: get_session_def dispatch_phase_def Let_def
        handle_screening_phase_unanswered
          [where store = store and sid = sid, OF Cons.prems(1) Cons.prems(3) Cons.prems(4)])
  have "\<exists>s'. run_handlers model sid msgs ?store1 sid = Some s' \<and> current_phase s' = SCREENING
           \<and> selected_tool s' = Some tool \<and> responses s' = [] \<and> completed s' = completed ?s1
           \<and> user_name s' = user_name ?s1 \<and> crisis_detected s' = crisis_detected ?s1"
    by (rule Cons.IH [where store = ?store1 and s = ?s1]) (simp_all add: Cons.prems)
  then show ?case unfolding step by simp
qed

lemma name_Bob: "takeWhile (\<lambda>c. \<not> is_space c) (strip ''Bob'') = ''Bob'' \<and> strip ''Bob'' \<noteq> []"
  by code_simp

lemma triage_anxious: "determine_screening_tool ''I've been really anxious and worried'' = GAD7"
  by code_simp

lemma greeting_step:
  assumes "store sid = Some s" and "user_name s = None" and "strip msg \<noteq> []"
  shows "\<exists>s'. snd (handle_greeting_phase model sid msg s store) = store (sid := Some s')
           \<and> current_phase s' = TRIAGE
           \<and> user_name s' = Some (takeWhile (\<lambda>c. \<not> is_space c) (strip msg))
           \<and> selected_tool s' = selected_tool s \<and> responses s' = responses s
           \<and> completed s' = completed s \<and> crisis_detected s' = crisis_detected s"
  using assms
  apply (simp add: handle_greeting_phase_def Let_def update_session_def add_conversation_def)
  apply (rule exI, rule conjI, rule refl)
  apply simp
  done

lemma triage_step:
  assumes "store sid = Some s"
  shows "\<exists>s'. snd (handle_triage_phase model sid msg s store) = store (sid := Some s')
           \<and> current_phase s' = SCREENING
           \<and> selected_tool s' = Some (determine_screening_tool msg)
           \<and> user_name s' = user_name s \<and> responses s' = responses s
           \<and> completed s' = completed s \<and> crisis_detected s' = crisis_detected s"
  using assms
  apply (simp add: handle_triage_phase_def Let_def update_session_def add_conversation_def current_def)
  apply (rule exI, rule conjI, rule refl)
  apply simp
  done

lemma run_handlers_step:
  "get_session store sid = Some s \<Longrightarrow>
   run_handlers model sid (m # ms) store
     = run_handlers model sid ms (snd (dispatch_phase model sid m s store))"
  by simp


text \<open>
  Claim C7, evaluated at scenario A. Past the safety check, a fresh session that is given
  the name "Bob" and the triage message "I've been really anxious and worried" is in phase
  SCREENING with the anxiety instrument and no answer on record. The screening handler
  records nothing while no answer is on record and presents question 1 again, so after
  seven answers "never" (as after any number of messages, for every remote model) the
  session is still in SCREENING with no response recorded and \<open>completed\<close> False.
\<close>

theorem screening_never_advances:
  "map_option current_phase (run_handlers model ''s1''
      ([''Bob'', ''I've been really anxious and worried''] @ replicate 7 ''never'')
      (Map.empty (''s1'' \<mapsto> new_session None)) ''s1'') = Some SCREENING
   \<and> map_option selected_tool (run_handlers model ''s1''
      ([''Bob'', ''I've been really anxious and worried''] @ replicate 7 ''never'')
      (Map.empty (''s1'' \<mapsto> new_session None)) ''s1'') = Some (Some GAD7)
   \<and> map_option user_name (run_handlers model ''s1''
      ([''Bob'', ''I've been really anxious and worried''] @ replicate 7 ''never'')
      (Map.empty (''s1'' \<mapsto> new_session None)) ''s1'') = Some (Some ''Bob'')
   \<and> map_option responses (run_handlers model ''s1''
      ([''Bob'', ''I've been really anxious and worried''] @ replicate 7 ''never'')
      (Map.empty (''s1'' \<mapsto> new_session None)) ''s1'') = Some []
   \<and> map_option completed (run_handlers model ''s1''
      ([''Bob'', ''I've been really anxious and worried''] @ replicate 7 ''never'')
      (Map.empty (''s1'' \<mapsto> new_session None)) ''s1'') = Some False"
proof -
  let ?st0 = "Map.empty (''s1'' \<mapsto> new_session None)"
  let ?msg = "''I've been really anxious and worried''"
  let ?rest = "replicate 7 ''never''"
  have live0: "?st0 ''s1'' = Some (new_session None)" by simp
  have d0: "dispatch_phase model ''s1'' ''Bob'' (new_session None) ?st0
            = handle_greeting_phase model ''s1'' ''Bob'' (new_session None) ?st0"
    by (simp add: dispatch_phase_def new_session_def)
  obtain a where st1: "snd (handle_greeting_phase model ''s1'' ''Bob'' (new_session None) ?st0)
                       = ?st0 (''s1'' := Some a)"
    and a: "current_phase a = TRIAGE" "user_name a = Some ''Bob''" "responses a = []"
      "completed a = False"
    using greeting_step [where store = ?st0 and sid = "''s1''" and s = "new_session None"
        and msg = "''Bob''" and model = model, OF live0] name_Bob
    by (auto simp: new_session_def)
  let ?st1 = "?st0 (''s1'' := Some a)"
  have live1: "?st1 ''s1'' = Some a" by simp
  have d1: "dispatch_phase model ''s1'' ?msg a ?st1 = handle_triage_phase model ''s1'' ?msg a ?st1"
    by (simp add: dispatch_phase_def a)
  obtain b where st2: "snd (handle_triage_phase model ''s1'' ?msg a ?st1) = ?st1 (''s1'' := Some b)"
    and b: "current_phase b = SCREENING" "selected_tool b = Some GAD7" "user_name b = Some ''Bob''"
      "responses b = []" "completed b = False"
    using triage_step [where store = ?st1 and sid = "''s1''" and s = a and msg = ?msg
        and model = model, OF live1] triage_anxious a
    by auto
  let ?st2 = "?st1 (''s1'' := Some b)"
  have live2: "?st2 ''s1'' = Some b" by simp
  have run: "run_handlers model ''s1'' ([''Bob'', ?msg] @ ?rest) ?st0
             = run_handlers model ''s1'' ?rest ?st2"
    using run_handlers_step [where store = ?st0 and sid = "''s1''" and s = "new_session None"
        and m = "''Bob''" and ms = "?msg # ?rest" and model = model]
      run_handlers_step [where store = ?st1 and sid = "''s1''" and s = a
        and m = ?msg and ms = ?rest and model = model]
    by (simp only: append_Cons append_Nil get_session_def live0 live1 d0 d1 st1 st2 simp_thms)
  obtain s' where "run_handlers model ''s1'' ?rest ?st2 ''s1'' = Some s'"
    and "current_phase s' = SCREENING" and "selected_tool s' = Some GAD7" and "responses s' = []"
    and "completed s' = completed b" and "user_name s' = user_name b"
    using run_handlers_screening_stuck
      [where store = ?st2 and sid = "''s1''" and s = b and tool = GAD7 and model = model
        and msgs = ?rest, OF live2 b(1) b(2) b(4)]
    by blast
  then show ?thesis
    unfolding run by (simp add: b)
qed


lemma phq9_q9_not_current:
  assumes "idx < length (screening_questions PHQ9)" and "0 < idx"
  shows "q_id (screening_questions PHQ9 ! (idx - 1)) \<noteq> ''phq9_9''"
proof -
  have all: "\<forall>q \<in> set (butlast (screening_questions PHQ9)). q_id q \<noteq> ''phq9_9''"
    by (simp add: screening_questions_def)
  have lt: "idx - 1 < length (butlast (screening_questions PHQ9))"
    using assms by simp
  then have "butlast (screening_questions PHQ9) ! (idx - 1) \<in> set (butlast (screening_questions PHQ9))"
    by (rule nth_mem)
  moreover have "butlast (screening_questions PHQ9) ! (idx - 1) = screening_questions PHQ9 ! (idx - 1)"
    using lt by (simp add: nth_butlast)
  ultimately show ?thesis using all by auto
qed

lemma transition_to_results_no_crisis:
  "res_crisis_detected (fst (transition_to_results model sid msg s store)) = False"
  by (simp add: transition_to_results_def get_error_response_def no_result_def Let_def
      split: option.splits sum.splits prod.splits)

lemma handle_screening_phase_no_crisis:
  "res_crisis_detected (fst (handle_screening_phase model sid msg s store)) = False"
proof (cases "selected_tool s")
  case None
  then show ?thesis
    by (simp add: handle_screening_phase_def get_error_response_def no_result_def)
next
  case (Some tool)
  show ?thesis
  proof (cases "length (responses s) \<ge> length (screening_questions tool)")
    case True
    then show ?thesis
      using Some by (simp add: handle_screening_phase_def Let_def transition_to_results_no_crisis)
  next
    case False
    then have lt: "length (responses s) < length (screening_questions tool)" by simp
    show ?thesis
    proof (cases "0 < length (responses s)")
      case False
      then show ?thesis
        using Some lt by (simp add: handle_screening_phase_def Let_def no_result_def)
    next
      case True
      have q9: "tool = PHQ9 \<Longrightarrow>
                q_id (screening_questions tool ! (length (responses s) - 1)) \<noteq> ''phq9_9''"
        using phq9_q9_not_current lt True by blast
      show ?thesis
        using Some lt True q9
        by (auto simp: handle_screening_phase_def Let_def no_result_def get_error_response_def
            split: sum.splits prod.splits)
    qed
  qed
qed


text \<open>
  Claim C8, evaluated at failing inputs. The answer "yes, nearly every day, I've been
  thinking about it" is a positive answer for the ideation classifier and is scored 3. The
  handler scores an answer against the question at index \<open>answered - 1\<close> only while
  \<open>answered\<close> is below the number of questions, so the item \<open>phq9_9\<close> (index 8) is
  never the current question and the test for it never holds. With nine answers on record
  the answer goes to \<open>_transition_to_results\<close>: phase RESULTS, \<open>completed\<close> True, no crisis
  flag, and the answer is not recorded. With eight answers on record it is recorded under
  \<open>phq9_8\<close>, the phase stays SCREENING and question 9 is presented, again without a crisis.
\<close>

theorem phq9_question9_answer_not_escalated:
  "check_phq9_question9 (init_SafetyMonitor None)
      (Some ''yes, nearly every day, I've been thinking about it'') = True
   \<and> map_response_to_score offline_model
        ''yes, nearly every day, I've been thinking about it''
        (q_text (screening_questions PHQ9 ! 8)) PHQ9
     = Inr (3, ''Fallback scoring based on high frequency indicators'')
   \<and> res_current_phase (fst (handle_screening_phase offline_model ''s1''
        ''yes, nearly every day, I've been thinking about it''
        (phq9_session 9) (Map.empty (''s1'' \<mapsto> phq9_session 9)))) = Some RESULTS
   \<and> res_crisis_detected (fst (handle_screening_phase offline_model ''s1''
        ''yes, nearly every day, I've been thinking about it''
        (phq9_session 9) (Map.empty (''s1'' \<mapsto> phq9_session 9)))) = False
   \<and> res_completed (fst (handle_screening_phase offline_model ''s1''
        ''yes, nearly every day, I've been thinking about it''
        (phq9_session 9) (Map.empty (''s1'' \<mapsto> phq9_session 9)))) = Some True
   \<and> map_option crisis_detected (snd (handle_screening_phase offline_model ''s1''
        ''yes, nearly every day, I've been thinking about it''
        (phq9_session 9) (Map.empty (''s1'' \<mapsto> phq9_session 9))) ''s1'') = Some False
   \<and> map_option responses (snd (handle_screening_phase offline_model ''s1''
        ''yes, nearly every day, I've been thinking about it''
        (phq9_session 9) (Map.empty (''s1'' \<mapsto> phq9_session 9))) ''s1'')
      = Some (responses (phq9_session 9))
   \<and> res_current_phase (fst (handle_screening_phase offline_model ''s1''
        ''yes, nearly every day, I've been thinking about it''
        (phq9_session 8) (Map.empty (''s1'' \<mapsto> phq9_session 8)))) = Some SCREENING
   \<and> res_crisis_detected (fst (handle_screening_phase offline_model ''s1''
        ''yes, nearly every day, I've been thinking about it''
        (phq9_session 8) (Map.empty (''s1'' \<mapsto> phq9_session 8)))) = False
   \<and> res_question_number (fst (handle_screening_phase offline_model ''s1''
        ''yes, nearly every day, I've been thinking about it''
        (phq9_session 8) (Map.empty (''s1'' \<mapsto> phq9_session 8)))) = Some 9
   \<and> map_option crisis_detected (snd (handle_screening_phase offline_model ''s1''
        ''yes, nearly every day, I've been thinking about it''
        (phq9_session 8) (Map.empty (''s1'' \<mapsto> phq9_session 8))) ''s1'') = Some False
   \<and> map_option (\<lambda>s. map question_id (responses s)) (snd (handle_screening_phase offline_model ''s1''
        ''yes, nearly every day, I've been thinking about it''
        (phq9_session 8) (Map.empty (''s1'' \<mapsto> phq9_session 8))) ''s1'')
      = Some [''phq9_1'', ''phq9_2'', ''phq9_3'', ''phq9_4'', ''phq9_5'', ''phq9_6'', ''phq9_7'',
              ''phq9_8'', ''phq9_8'']"
proof -
  have a1: "check_phq9_question9 (init_SafetyMonitor None)
      (Some ''yes, nearly every day, I've been thinking about it'') = True"
    by code_simp
  have a2: "map_response_to_score offline_model
        ''yes, nearly every day, I've been thinking about it''
        (q_text (screening_questions PHQ9 ! 8)) PHQ9
     = Inr (3, ''Fallback scoring based on high frequency indicators'')"
    by code_simp
  have a3: "res_current_phase (fst (handle_screening_phase offline_model ''s1''
        ''yes, nearly every day, I've been thinking about it''
        (phq9_session 9) (Map.empty (''s1'' \<mapsto> phq9_session 9)))) = Some RESULTS
   \<and> res_crisis_detected (fst (handle_screening_phase offline_model ''s1''
        ''yes, nearly every day, I've been thinking about it''
        (phq9_session 9) (Map.empty (''s1'' \<mapsto> phq9_session 9)))) = False
   \<and> res_completed (fst (handle_screening_phase offline_model ''s1''
        ''yes, nearly every day, I've been thinking about it''
        (phq9_session 9) (Map.empty (''s1'' \<mapsto> phq9_session 9)))) = Some True"
    by code_simp
  have a4: "map_option crisis_detected (snd (handle_screening_phase offline_model ''s1''
        ''yes, nearly every day, I've been thinking about it''
        (phq9_session 9) (Map.empty (''s1'' \<mapsto> phq9_session 9))) ''s1'') = Some False
   \<and> map_option responses (snd (handle_screening_phase offline_model ''s1''
        ''yes, nearly every day, I've been thinking about it''
        (phq9_session 9) (Map.empty (''s1'' \<mapsto> phq9_session 9))) ''s1'')
      = Some (responses (phq9_session 9))"
    by code_simp
  have a5: "res_current_phase (fst (handle_screening_phase offline_model ''s1''
        ''yes, nearly every day, I've been thinking about it''
        (phq9_session 8) (Map.empty (''s1'' \<mapsto> phq9_session 8)))) = Some SCREENING
   \<and> res_crisis_detected (fst (handle_screening_phase offline_model ''s1''
        ''yes, nearly every day, I've been thinking about it''
        (phq9_session 8) (Map.empty (''s1'' \<mapsto> phq9_session 8)))) = False
   \<and> res_question_number (fst (handle_screening_phase offline_model ''s1''
        ''yes, nearly every day, I've been thinking about it''
        (phq9_session 8) (Map.empty (''s1'' \<mapsto> phq9_session 8)))) = Some 9"
    by code_simp
  have a6: "map_option crisis_detected (snd (handle_screening_phase offline_model ''s1''
        ''yes, nearly every day, I've been thinking about it''
        (phq9_session 8) (Map.empty (''s1'' \<mapsto> phq9_session 8))) ''s1'') = Some False
   \<and> map_option (\<lambda>s. map question_id (responses s)) (snd (handle_screening_phase offline_model ''s1''
        ''yes, nearly every day, I've been thinking about it''
        (phq9_session 8) (Map.empty (''s1'' \<mapsto> phq9_session 8))) ''s1'')
      = Some [''phq9_1'', ''phq9_2'', ''phq9_3'', ''phq9_4'', ''phq9_5'', ''phq9_6'', ''phq9_7'',
              ''phq9_8'', ''phq9_8'']"
    by code_simp
  show ?thesis
    by (simp only: a1 a2 a3 a4 a5 a6 simp_thms)
qed

subsection \<open>The answer to the ideation question\<close>









lemma lower_length: "length (lower t) = length t"
  by (simp add: lower_def)






























end
